theory Spec2Isabelle
  imports Complex_Main "HOL-Library.Sublist" "HOL-Library.Signed_Division" "HOL-Library.AList"
begin

section \<open>Chord detection (utils/chordDetection)\<close>

subsection \<open>JavaScript string helpers\<close>

text \<open>
  Strings are byte lists. \<open>toLowerCase\<close> maps the ASCII capitals to their small letters and
  leaves every other byte alone; \<open>str_includes s sub\<close> is \<open>s.includes(sub)\<close>; \<open>orElse a b\<close> is
  \<open>a || b\<close> on strings (the empty string is falsy).
\<close>

definition lowerChar :: "char \<Rightarrow> char" where
  "lowerChar c =
     (case map_of (zip ''ABCDEFGHIJKLMNOPQRSTUVWXYZ'' ''abcdefghijklmnopqrstuvwxyz'') c of
        Some l \<Rightarrow> l
      | None \<Rightarrow> c)"

definition toLowerCase :: "string \<Rightarrow> string" where
  "toLowerCase s = map lowerChar s"

fun str_includes :: "string \<Rightarrow> string \<Rightarrow> bool" where
  "str_includes [] sub = (sub = [])"
| "str_includes (c # cs) sub = (prefix sub (c # cs) \<or> str_includes cs sub)"

definition orElse :: "string \<Rightarrow> string \<Rightarrow> string" where
  "orElse a b = (if a = [] then b else a)"

subsection \<open>The chord library, as the source uses it\<close>

text \<open>
  The source imports \<open>Chord\<close> and \<open>Note\<close> from the tonal package, which is not part of the
  repository. The four functions it calls are parameters of the model.
\<close>

record chordInfo =
  ci_empty :: bool
  ci_tonic :: "string option"
  ci_type :: string
  ci_quality :: string

record tonal =
  Note_fromMidi :: "int \<Rightarrow> string"
  Note_pitchClass :: "string \<Rightarrow> string"
  Chord_detect :: "string list \<Rightarrow> string list"
  Chord_get :: "string \<Rightarrow> chordInfo"

datatype quality = Major | Minor | Diminished | Augmented | Dominant | Other

record detectedChord =
  dc_name :: string
  dc_symbol :: string
  dc_root :: string
  dc_type :: string
  dc_notes :: "string list"
  dc_quality :: quality

subsection \<open>The functions of the source\<close>

definition midiToNote :: "tonal \<Rightarrow> int \<Rightarrow> string" where
  "midiToNote T midi = orElse (Note_fromMidi T midi) ''''"

text \<open>JavaScript's \<open>%\<close> takes the sign of the dividend: \<open>smod\<close>.\<close>

definition midiToPitchClass :: "int \<Rightarrow> int" where
  "midiToPitchClass midi = midi smod 12"

definition getPitchClasses :: "int list \<Rightarrow> int list" where
  "getPitchClasses midiNotes = sort (remdups (map midiToPitchClass midiNotes))"

definition getChordQuality :: "string \<Rightarrow> quality" where
  "getChordQuality ty =
     (let t = toLowerCase ty in
      if str_includes t ''maj'' \<or> t = ''M'' \<or> t = '''' then Major
      else if str_includes t ''min'' \<or> t = ''m'' then Minor
      else if str_includes t ''dim'' then Diminished
      else if str_includes t ''aug'' then Augmented
      else if str_includes t ''dom'' \<or> str_includes t ''7'' then Dominant
      else Other)"

definition pitchClassNames :: "tonal \<Rightarrow> string list \<Rightarrow> string list" where
  "pitchClassNames T noteNames = map (\<lambda>n. orElse (Note_pitchClass T n) n) noteNames"

text \<open>
  The two name lists handed to the matcher: \<open>noteNames\<close> is
  \<open>notes.map(midiToNote).filter(Boolean)\<close>, \<open>pitchClassNotes\<close> is
  \<open>getPitchClasses(notes).map(pc => Note.pitchClass(midiToNote(pc) || 'C'))\<close>.
\<close>

definition noteNames :: "tonal \<Rightarrow> int list \<Rightarrow> string list" where
  "noteNames T notes = filter (\<lambda>s. s \<noteq> []) (map (midiToNote T) notes)"

definition pitchClassNotes :: "tonal \<Rightarrow> int list \<Rightarrow> string list" where
  "pitchClassNotes T notes =
     map (\<lambda>pc. Note_pitchClass T (orElse (midiToNote T pc) ''C'')) (getPitchClasses notes)"

definition bassNote :: "tonal \<Rightarrow> int list \<Rightarrow> string" where
  "bassNote T notes = midiToNote T (hd (sort notes))"

definition chordQualityOf :: "chordInfo \<Rightarrow> quality" where
  "chordQualityOf chordInfo = getChordQuality (orElse (ci_quality chordInfo) (ci_type chordInfo))"

text \<open>
  \<open>detectChord\<close> takes \<open>Array.from(activeNotes)\<close>: for a \<open>Set\<close> the list of its members in
  insertion order (no duplicates), for an array the array itself. \<open>bassNote\<close> is only read
  after the length check, where \<open>sort notes\<close> is not empty.
\<close>

definition detectChord :: "tonal \<Rightarrow> int list \<Rightarrow> detectedChord option" where
  "detectChord T activeNotes =
     (let notes = activeNotes in
      if length notes < 2 then None
      else if length (noteNames T notes) < 2 then None
      else
        (case Chord_detect T (noteNames T notes) of
           chordName # _ \<Rightarrow>
             (let chordInfo = Chord_get T chordName in
              if ci_empty chordInfo then None
              else Some \<lparr>dc_name = chordName, dc_symbol = chordName,
                     dc_root = (case ci_tonic chordInfo of
                                  Some t \<Rightarrow> orElse t (bassNote T notes)
                                | None \<Rightarrow> bassNote T notes),
                     dc_type = ci_type chordInfo,
                     dc_notes = pitchClassNames T (noteNames T notes),
                     dc_quality = chordQualityOf chordInfo\<rparr>)
         | [] \<Rightarrow>
             (case Chord_detect T (pitchClassNotes T notes) of
                chordName # _ \<Rightarrow>
                  (let chordInfo = Chord_get T chordName in
                   if \<not> ci_empty chordInfo then
                     Some \<lparr>dc_name = chordName, dc_symbol = chordName,
                       dc_root = (case ci_tonic chordInfo of Some t \<Rightarrow> t | None \<Rightarrow> ''''),
                       dc_type = ci_type chordInfo,
                       dc_notes = pitchClassNames T (noteNames T notes),
                       dc_quality = chordQualityOf chordInfo\<rparr>
                   else None)
              | [] \<Rightarrow> None)))"

text \<open>
  The quality rules as the specification words them: substrings of the tag itself, tried in
  order, with no rule for the empty tag.
\<close>

definition chordQuality_spec :: "string \<Rightarrow> quality" where
  "chordQuality_spec ty =
     (if sublist ''maj'' ty then Major
      else if sublist ''min'' ty \<or> ty = ''m'' then Minor
      else if sublist ''dim'' ty then Diminished
      else if sublist ''aug'' ty then Augmented
      else if sublist ''dom'' ty \<or> sublist ''7'' ty then Dominant
      else Other)"

subsection \<open>What the matcher is assumed to do\<close>

text \<open>
  Two properties of the chord library that the source relies on without checking them: no
  chord template is matched by names of fewer than two distinct pitch classes, and the
  pitch-class name of a MIDI note depends on the note modulo 12 only.
\<close>

definition matcher_needs_two :: "tonal \<Rightarrow> bool" where
  "matcher_needs_two T \<longleftrightarrow>
     (\<forall>names. card (set (map (Note_pitchClass T) names)) < 2 \<longrightarrow> Chord_detect T names = [])"

definition pitchClass_by_mod12 :: "tonal \<Rightarrow> bool" where
  "pitchClass_by_mod12 T \<longleftrightarrow>
     (\<forall>m n. m smod 12 = n smod 12 \<longrightarrow>
        Note_pitchClass T (Note_fromMidi T m) = Note_pitchClass T (Note_fromMidi T n))"

subsection \<open>A chord library to run the functions on\<close>

text \<open>
  An instance of the four library functions that follows the tonal package on the inputs
  used below. \<open>demo_fromMidi\<close> names a note with flats and its octave number, and has no
  name for a negative note that is not a multiple of 12. \<open>demo_pitchClass\<close> reads such a
  name (a letter, flats, an optional octave) and gives the empty string for anything else.
  \<open>demo_detect\<close> compares each of the twelve rotations of the pitch-class set with the
  chord dictionary and names a match by its root and the first alias of the chord type,
  followed by a slash and the first note when the root is not the first note; matches
  rooted at the first note come first. \<open>demo_get\<close> splits a symbol into tonic, type and
  bass and looks the type up by name or alias; a symbol it cannot split that way is looked
  up as a whole. The dictionary holds twelve of the package's chord types, with the ASCII
  aliases only.
\<close>

definition flatNames :: "string list" where
  "flatNames = [''C'', ''Db'', ''D'', ''Eb'', ''E'', ''F'', ''Gb'', ''G'', ''Ab'', ''A'', ''Bb'', ''B'']"

definition digitChar :: "nat \<Rightarrow> char" where
  "digitChar d = ''0123456789'' ! d"

fun showNat :: "nat \<Rightarrow> string" where
  "showNat n = (if n < 10 then [digitChar n] else showNat (n div 10) @ [digitChar (n mod 10)])"

definition showInt :: "int \<Rightarrow> string" where
  "showInt i = (if i < 0 then CHR ''-'' # showNat (nat (- i)) else showNat (nat i))"

definition demo_fromMidi :: "int \<Rightarrow> string" where
  "demo_fromMidi midi =
     (if midi smod 12 < 0 then []
      else flatNames ! nat (midi smod 12) @ showInt (midi div 12 - 1))"

definition pcPrefix :: "string \<Rightarrow> string" where
  "pcPrefix s =
     (case s of
        [] \<Rightarrow> []
      | c # cs \<Rightarrow> if c \<in> set ''ABCDEFG'' then c # takeWhile (\<lambda>x. x = CHR ''b'') cs else [])"

definition isOctave :: "string \<Rightarrow> bool" where
  "isOctave s =
     (case s of
        [] \<Rightarrow> True
      | c # cs \<Rightarrow> if c = CHR ''-'' then list_all (\<lambda>x. x \<in> set ''0123456789'') cs
                 else list_all (\<lambda>x. x \<in> set ''0123456789'') (c # cs))"

definition demo_pitchClass :: "string \<Rightarrow> string" where
  "demo_pitchClass s =
     (let p = pcPrefix s in
      if p \<noteq> [] \<and> isOctave (drop (length p) s) then p else [])"

definition letterStep :: "char \<Rightarrow> int" where
  "letterStep c =
     (case map_of [(CHR ''C'', 0), (CHR ''D'', 2), (CHR ''E'', 4), (CHR ''F'', 5), (CHR ''G'', 7),
                   (CHR ''A'', 9), (CHR ''B'', 11)] c of
        Some k \<Rightarrow> k
      | None \<Rightarrow> 0)"

definition chromaOf :: "string \<Rightarrow> int" where
  "chromaOf pc =
     (case pc of
        [] \<Rightarrow> 0
      | c # acc \<Rightarrow> (letterStep c - int (length acc)) mod 12)"

record chordType =
  ct_intervals :: "int list"
  ct_name :: string
  ct_aliases :: "string list"
  ct_quality :: string

definition chordTypes :: "chordType list" where
  "chordTypes =
     [\<lparr>ct_intervals = [0, 4, 7], ct_name = ''major'', ct_aliases = [''M'', ''^'', '''', ''maj''],
        ct_quality = ''Major''\<rparr>,
      \<lparr>ct_intervals = [0, 4, 7, 11], ct_name = ''major seventh'',
        ct_aliases = [''maj7'', ''ma7'', ''M7'', ''Maj7'', ''^7''], ct_quality = ''Major''\<rparr>,
      \<lparr>ct_intervals = [0, 3, 7], ct_name = ''minor'', ct_aliases = [''m'', ''min'', ''-''],
        ct_quality = ''Minor''\<rparr>,
      \<lparr>ct_intervals = [0, 3, 7, 10], ct_name = ''minor seventh'',
        ct_aliases = [''m7'', ''min7'', ''mi7'', ''-7''], ct_quality = ''Minor''\<rparr>,
      \<lparr>ct_intervals = [0, 3, 7, 11], ct_name = ''minor/major seventh'',
        ct_aliases = [''m/ma7'', ''m/maj7'', ''mM7'', ''mMaj7'', ''m/M7'', ''-^7'', ''-maj7''],
        ct_quality = ''Minor''\<rparr>,
      \<lparr>ct_intervals = [0, 3, 6], ct_name = ''diminished'', ct_aliases = [''dim'', ''o''],
        ct_quality = ''Diminished''\<rparr>,
      \<lparr>ct_intervals = [0, 4, 7, 10], ct_name = ''dominant seventh'', ct_aliases = [''7'', ''dom''],
        ct_quality = ''Major''\<rparr>,
      \<lparr>ct_intervals = [0, 5, 7], ct_name = ''suspended fourth'', ct_aliases = [''sus4'', ''sus''],
        ct_quality = ''Unknown''\<rparr>,
      \<lparr>ct_intervals = [0, 2, 7], ct_name = ''suspended second'', ct_aliases = [''sus2''],
        ct_quality = ''Unknown''\<rparr>,
      \<lparr>ct_intervals = [0, 7], ct_name = ''fifth'', ct_aliases = [''5''],
        ct_quality = ''Unknown''\<rparr>,
      \<lparr>ct_intervals = [0, 4, 8], ct_name = ''augmented'', ct_aliases = [''aug'', ''+'', ''+5'', ''^#5''],
        ct_quality = ''Augmented''\<rparr>,
      \<lparr>ct_intervals = [0, 3, 8], ct_name = '''', ct_aliases = [''m#5'', ''-#5'', ''m+''],
        ct_quality = ''Augmented''\<rparr>]"

definition modeAt :: "int list \<Rightarrow> int \<Rightarrow> int list" where
  "modeAt chromas i = sort (remdups (map (\<lambda>c. (c - i) mod 12) chromas))"

definition noteNameAt :: "string list \<Rightarrow> int \<Rightarrow> string" where
  "noteNameAt notes i = (case find (\<lambda>n. chromaOf n = i) notes of Some n \<Rightarrow> n | None \<Rightarrow> [])"

definition matchAt :: "string list \<Rightarrow> string \<Rightarrow> int \<Rightarrow> chordType \<Rightarrow> (bool \<times> string) list" where
  "matchAt notes tonic i ct =
     (if ct_intervals ct = modeAt (map chromaOf notes) i then
        (if i = chromaOf tonic then [(True, noteNameAt notes i @ hd (ct_aliases ct))]
         else [(False, noteNameAt notes i @ hd (ct_aliases ct) @ CHR ''/'' # tonic)])
      else [])"

definition findMatches :: "string list \<Rightarrow> (bool \<times> string) list" where
  "findMatches notes =
     (case notes of
        [] \<Rightarrow> []
      | tonic # _ \<Rightarrow>
          concat (map (\<lambda>i. concat (map (matchAt notes tonic i) chordTypes))
            [0, 1, 2, 3, 4, 5, 6, 7, 8, 9, 10, 11]))"

definition demo_detect :: "string list \<Rightarrow> string list" where
  "demo_detect source =
     (let notes = filter (\<lambda>x. x \<noteq> []) (map demo_pitchClass source);
          found = findMatches notes
      in map snd (filter fst found) @ map snd (filter (\<lambda>m. \<not> fst m) found))"

definition noChord :: chordInfo where
  "noChord = \<lparr>ci_empty = True, ci_tonic = None, ci_type = '''', ci_quality = ''Unknown''\<rparr>"

definition getChordType :: "string \<Rightarrow> chordType option" where
  "getChordType ty =
     find (\<lambda>ct. (ct_name ct \<noteq> [] \<and> ty = ct_name ct) \<or> ty \<in> set (ct_aliases ct)) chordTypes"

definition getChord :: "string \<Rightarrow> string \<Rightarrow> string \<Rightarrow> chordInfo" where
  "getChord typeName optionalTonic optionalBass =
     (case getChordType typeName of
        None \<Rightarrow> noChord
      | Some ct \<Rightarrow>
          if (optionalTonic \<noteq> [] \<and> demo_pitchClass optionalTonic = []) \<or>
             (optionalBass \<noteq> [] \<and> demo_pitchClass optionalBass = [])
          then noChord
          else \<lparr>ci_empty = False, ci_tonic = Some optionalTonic, ci_type = ct_name ct,
                 ci_quality = ct_quality ct\<rparr>)"

fun splitSlash :: "string \<Rightarrow> string list" where
  "splitSlash [] = [[]]"
| "splitSlash (c # cs) =
     (if c = CHR ''/'' then [] # splitSlash cs
      else (case splitSlash cs of p # ps \<Rightarrow> (c # p) # ps | [] \<Rightarrow> [[c]]))"

definition tokenizeBass :: "string \<Rightarrow> string \<Rightarrow> string \<times> string \<times> string" where
  "tokenizeBass note chord =
     (case splitSlash chord of
        c0 # c1 # _ \<Rightarrow>
          if c1 \<noteq> [] \<and> pcPrefix c1 = c1 then (note, c0, c1) else (note, chord, [])
      | _ \<Rightarrow> (note, chord, []))"

definition tokenize :: "string \<Rightarrow> string \<times> string \<times> string" where
  "tokenize name =
     (let p = pcPrefix name in
      if p = [] then tokenizeBass [] name else tokenizeBass p (drop (length p) name))"

definition demo_get :: "string \<Rightarrow> chordInfo" where
  "demo_get src =
     (if src = [] then noChord
      else
        (case tokenize src of
           (tonic, ty, bass) \<Rightarrow>
             (let chord = getChord ty tonic bass in
              if ci_empty chord then getChord src [] [] else chord)))"

definition demoTonal :: tonal where
  "demoTonal = \<lparr>Note_fromMidi = demo_fromMidi, Note_pitchClass = demo_pitchClass,
     Chord_detect = demo_detect, Chord_get = demo_get\<rparr>"

section \<open>The instrument catalog (audio/instruments)\<close>

datatype instrumentType = Sampled | Synth

text \<open>The \<open>icon\<close> field of the source is display text only and is left out.\<close>

record instrument =
  inst_id :: string
  inst_name :: string
  inst_type :: instrumentType

definition instruments :: "instrument list" where
  "instruments =
     [\<lparr>inst_id = ''grand-piano'', inst_name = ''Grand Piano'', inst_type = Sampled\<rparr>,
      \<lparr>inst_id = ''electric-piano'', inst_name = ''Electric Piano'', inst_type = Sampled\<rparr>,
      \<lparr>inst_id = ''strings'', inst_name = ''Strings'', inst_type = Sampled\<rparr>,
      \<lparr>inst_id = ''organ'', inst_name = ''Organ'', inst_type = Synth\<rparr>,
      \<lparr>inst_id = ''synth-pad'', inst_name = ''Synth Pad'', inst_type = Synth\<rparr>,
      \<lparr>inst_id = ''synth-lead'', inst_name = ''Synth Lead'', inst_type = Synth\<rparr>]"

definition getInstrument :: "string \<Rightarrow> instrument" where
  "getInstrument i =
     (case find (\<lambda>x. inst_id x = i) instruments of
        Some x \<Rightarrow> x
      | None \<Rightarrow> instruments ! 0)"

definition DEFAULT_INSTRUMENT_ID :: string where
  "DEFAULT_INSTRUMENT_ID = ''grand-piano''"

definition DEFAULT_VOLUME :: real where
  "DEFAULT_VOLUME = 80"

section \<open>The audio engine (hooks/useAudio)\<close>

subsection \<open>Backends and the calls made on them\<close>

text \<open>
  JavaScript numbers are modelled as reals, \<open>-Infinity\<close> as a value of its own. A backend is
  the object held in \<open>instrumentRef\<close>: one of the two sampler classes, or a \<open>PolySynth\<close> with
  the type it was created for and its \<open>volume.value\<close>.
\<close>

datatype decibels = NegInfinity | Db real

datatype backend = SplendidGrandPiano | Soundfont string | PolySynth string decibels

text \<open>
  The calls the hook makes on a backend, in order, are kept in a log. A voice started on a
  sampler gets a fresh number; \<open>Stop v\<close> is a call of the stop function that \<open>start\<close>
  returned for voice \<open>v\<close>. The time argument \<open>Tone.now()\<close> is left out.
\<close>

datatype call =
    ReleaseAll backend
  | TriggerAttack backend real real
  | TriggerRelease backend real
  | Start backend int int nat
  | Stop nat

text \<open>How an awaited promise settles; a rejection carries the message of an \<open>Error\<close>, if any.\<close>

datatype settled = Fulfilled | Rejected "string option"

datatype contextState = Running | Suspended

record audio =
  isEnabled :: bool
  isLoading :: bool
  error :: "string option"
  currentInstrumentId :: string
  volume :: real
  audioContextRef :: bool
  instrumentRef :: "backend option"
  activeNotesRef :: "(int \<times> nat option) list"
  pendingLoads :: "string list"
  nextVoice :: nat
  calls :: "call list"

text \<open>
  \<open>audioContextRef\<close> says whether the ref holds a context; \<open>activeNotesRef\<close> is the
  \<open>Map\<close> from note number to stop function or \<open>null\<close>, in insertion order;
  \<open>pendingLoads\<close> lists the instrument ids whose \<open>setInstrument\<close> call is suspended at
  its \<open>await\<close>.
\<close>

definition initialAudio :: audio where
  "initialAudio =
     \<lparr>isEnabled = False, isLoading = False, error = None,
      currentInstrumentId = DEFAULT_INSTRUMENT_ID, volume = DEFAULT_VOLUME,
      audioContextRef = False, instrumentRef = None, activeNotesRef = [],
      pendingLoads = [], nextVoice = 0, calls = []\<rparr>"

definition midiToFreq :: "int \<Rightarrow> real" where
  "midiToFreq midi = 440 * 2 powr ((of_int midi - 69) / 12)"

definition createSynth :: "string \<Rightarrow> backend" where
  "createSynth ty = PolySynth ty (Db (- 6))"

text \<open>The object \<open>loadSampledInstrument\<close> constructs; its \<open>load\<close> promise is awaited by the caller's model.\<close>

definition loadSampledInstrument :: "string \<Rightarrow> backend" where
  "loadSampledInstrument instrumentId =
     (if instrumentId = ''grand-piano'' then SplendidGrandPiano
      else if instrumentId = ''electric-piano'' then Soundfont ''electric_piano_1''
      else if instrumentId = ''strings'' then Soundfont ''string_ensemble_1''
      else SplendidGrandPiano)"

fun isPolySynth :: "backend \<Rightarrow> bool" where
  "isPolySynth (PolySynth _ _) = True"
| "isPolySynth _ = False"

text \<open>
  \<open>'releaseAll' in instrument\<close>: the source casts to \<open>Tone.PolySynth\<close> on that branch; the
  sampler classes offer \<open>start\<close> and \<open>stop\<close> only.
\<close>

definition hasReleaseAll :: "backend \<Rightarrow> bool" where
  "hasReleaseAll b = isPolySynth b"

subsection \<open>enable\<close>

text \<open>
  One uninterrupted run of \<open>enable\<close>. Its three awaits (\<open>Tone.start()\<close>, \<open>context.resume()\<close>
  when the new context is suspended, the instrument's \<open>load\<close>) settle as the arguments say.
\<close>

definition enableFailed :: "audio \<Rightarrow> string option \<Rightarrow> audio" where
  "enableFailed st err =
     st\<lparr>error := Some (case err of Some message \<Rightarrow> message | None \<Rightarrow> ''Failed to enable audio''),
        isLoading := False\<rparr>"

definition enableLoad :: "audio \<Rightarrow> settled \<Rightarrow> audio" where
  "enableLoad st load =
     (let st2 = st\<lparr>audioContextRef := True\<rparr>;
          st3 = (case load of
                   Fulfilled \<Rightarrow>
                     st2\<lparr>instrumentRef := Some (loadSampledInstrument DEFAULT_INSTRUMENT_ID)\<rparr>
                 | Rejected _ \<Rightarrow>
                     st2\<lparr>instrumentRef := Some (createSynth ''organ''),
                         currentInstrumentId := ''organ''\<rparr>)
      in st3\<lparr>isEnabled := True, isLoading := False\<rparr>)"

definition enable :: "audio \<Rightarrow> settled \<Rightarrow> contextState \<Rightarrow> settled \<Rightarrow> settled \<Rightarrow> audio" where
  "enable st toneStart ctx resume load =
     (if isEnabled st then st
      else
        let st1 = st\<lparr>isLoading := True, error := None\<rparr> in
        (case toneStart of
           Rejected err \<Rightarrow> enableFailed st1 err
         | Fulfilled \<Rightarrow>
             (case ctx of
                Running \<Rightarrow> enableLoad st1 load
              | Suspended \<Rightarrow>
                  (case resume of
                     Rejected err \<Rightarrow> enableFailed st1 err
                   | Fulfilled \<Rightarrow> enableLoad st1 load))))"

subsection \<open>setInstrument\<close>

text \<open>
  \<open>setInstrument_call\<close> is the call up to its \<open>await\<close>: for a sampled instrument it stops
  there, with the load pending; for a synthesizer nothing is awaited and the call runs to
  its end. \<open>setInstrument_settled\<close> is the rest of the function, run when the awaited load
  settles.
\<close>

definition setInstrument_call :: "audio \<Rightarrow> string \<Rightarrow> audio" where
  "setInstrument_call st instrumentId =
     (if \<not> audioContextRef st then st
      else
        let instrument = getInstrument instrumentId;
            st1 = st\<lparr>isLoading := True\<rparr>;
            st2 = (case instrumentRef st1 of
                     Some b \<Rightarrow>
                       if hasReleaseAll b then st1\<lparr>calls := calls st1 @ [ReleaseAll b]\<rparr> else st1
                   | None \<Rightarrow> st1)
        in if inst_type instrument = Sampled then
             st2\<lparr>pendingLoads := pendingLoads st2 @ [instrumentId]\<rparr>
           else
             st2\<lparr>instrumentRef := Some (createSynth instrumentId),
                 currentInstrumentId := instrumentId, isLoading := False\<rparr>)"

definition setInstrument_settled :: "audio \<Rightarrow> string \<Rightarrow> settled \<Rightarrow> audio option" where
  "setInstrument_settled st instrumentId load =
     (if instrumentId \<notin> set (pendingLoads st) then None
      else
        let st1 = st\<lparr>pendingLoads := remove1 instrumentId (pendingLoads st)\<rparr> in
        (case load of
           Fulfilled \<Rightarrow>
             Some (st1\<lparr>instrumentRef := Some (loadSampledInstrument instrumentId),
                     currentInstrumentId := instrumentId, isLoading := False\<rparr>)
         | Rejected _ \<Rightarrow> Some (st1\<lparr>isLoading := False\<rparr>)))"

subsection \<open>playNote, stopNote, setVolume\<close>

text \<open>
  \<open>startFn\<close> says whether the sampler's \<open>start\<close> returned a function
  (\<open>typeof result === 'function'\<close>).
\<close>

definition playNote :: "audio \<Rightarrow> int \<Rightarrow> real \<Rightarrow> bool \<Rightarrow> audio" where
  "playNote st midiNote velocity startFn =
     (case instrumentRef st of
        None \<Rightarrow> st
      | Some instr \<Rightarrow>
          if isPolySynth instr then
            (let normalizedVelocity = max (1 / 10) (velocity / 127);
                 freq = midiToFreq midiNote
             in st\<lparr>calls := calls st @ [TriggerAttack instr freq normalizedVelocity],
                   activeNotesRef := AList.update midiNote None (activeNotesRef st)\<rparr>)
          else
            (let midiVelocity = max 10 (min 127 (round velocity));
                 voice = nextVoice st
             in st\<lparr>calls := calls st @ [Start instr midiNote midiVelocity voice],
                   nextVoice := voice + 1,
                   activeNotesRef :=
                     AList.update midiNote (if startFn then Some voice else None)
                       (activeNotesRef st)\<rparr>))"

definition stopNote :: "audio \<Rightarrow> int \<Rightarrow> audio" where
  "stopNote st midiNote =
     (case instrumentRef st of
        None \<Rightarrow> st
      | Some instr \<Rightarrow>
          (let st1 =
                 (if isPolySynth instr then
                    st\<lparr>calls := calls st @ [TriggerRelease instr (midiToFreq midiNote)]\<rparr>
                  else
                    (case map_of (activeNotesRef st) midiNote of
                       Some (Some voice) \<Rightarrow> st\<lparr>calls := calls st @ [Stop voice]\<rparr>
                     | _ \<Rightarrow> st))
           in st1\<lparr>activeNotesRef := AList.delete midiNote (activeNotesRef st1)\<rparr>))"

definition setVolume :: "audio \<Rightarrow> real \<Rightarrow> audio" where
  "setVolume st newVolume =
     (let st1 = st\<lparr>volume := newVolume\<rparr> in
      (case instrumentRef st1 of
         Some (PolySynth ty _) \<Rightarrow>
           (let db = (if newVolume = 0 then NegInfinity
                      else Db (- 60 + (newVolume / 100) * 54))
            in st1\<lparr>instrumentRef := Some (PolySynth ty db)\<rparr>)
       | _ \<Rightarrow> st1))"

subsection \<open>Runs of the engine\<close>

text \<open>
  The hook runs on one thread: calls and settled loads happen one after the other, in any
  order the host delivers them. A run is a list of such events; an event that cannot happen
  (a load settling that was never started) ends the run with \<open>None\<close>.
\<close>

datatype event =
    SetInstrument string
  | LoadSettled string settled
  | PlayNote int real bool
  | StopNote int
  | SetVolume real

fun step :: "audio \<Rightarrow> event \<Rightarrow> audio option" where
  "step st (SetInstrument i) = Some (setInstrument_call st i)"
| "step st (LoadSettled i r) = setInstrument_settled st i r"
| "step st (PlayNote n v f) = Some (playNote st n v f)"
| "step st (StopNote n) = Some (stopNote st n)"
| "step st (SetVolume v) = Some (setVolume st v)"

fun run :: "audio \<Rightarrow> event list \<Rightarrow> audio option" where
  "run st [] = Some st"
| "run st (e # es) = (case step st e of None \<Rightarrow> None | Some st' \<Rightarrow> run st' es)"






section \<open>The note registry (hooks/useMidi)\<close>

text \<open>
  \<open>activeNotes\<close> is a \<open>Set\<close> of note numbers, kept as the list of its members in insertion
  order. The callbacks are the ones the application passes: \<open>onNoteOn\<close> is \<open>playNote\<close>,
  \<open>onNoteOff\<close> is \<open>stopNote\<close>.
\<close>

definition setAdd :: "int list \<Rightarrow> int \<Rightarrow> int list" where
  "setAdd s n = (if n \<in> set s then s else s @ [n])"


record midiAudio =
  activeNotes :: "int list"
  audioOf :: audio



section \<open>Facts about the string helpers\<close>

lemma str_includes_sublist: "str_includes s sub \<longleftrightarrow> sublist sub s"
  by (induction s) (auto simp: sublist_Cons_right)


declare showNat.simps [simp del]

lemmas audio_defs = enable_def enableLoad_def enableFailed_def initialAudio_def
  DEFAULT_INSTRUMENT_ID_def DEFAULT_VOLUME_def createSynth_def loadSampledInstrument_def
  hasReleaseAll_def setInstrument_call_def setInstrument_settled_def getInstrument_def
  instruments_def playNote_def stopNote_def setVolume_def Let_def

lemma lowerChar_eq_m: "lowerChar c = CHR ''m'' \<longleftrightarrow> c = CHR ''m'' \<or> c = CHR ''M''"
  by (auto simp: lowerChar_def split: if_splits)

lemma toLowerCase_Nil: "toLowerCase s = [] \<longleftrightarrow> s = []"
  by (simp add: toLowerCase_def)

lemma toLowerCase_m: "toLowerCase s = ''m'' \<longleftrightarrow> s = ''m'' \<or> s = ''M''"
  by (cases s) (auto simp: toLowerCase_def lowerChar_eq_m)

lemma lowerChar_ne_M: "lowerChar c \<noteq> CHR ''M''"
  by (auto simp: lowerChar_def split: if_splits)

lemma toLowerCase_ne_M: "toLowerCase s \<noteq> ''M''"
  by (cases s) (auto simp: toLowerCase_def lowerChar_ne_M)

section \<open>Chord quality\<close>

text \<open>
  C5 (as amended). The tag is lower-cased first. A tag whose lower-cased form contains
  \<open>maj\<close>, or that is empty, is Major; otherwise one whose lower-cased form contains \<open>min\<close>,
  or that is \<open>m\<close>, is Minor; otherwise \<open>dim\<close> gives Diminished, \<open>aug\<close> Augmented,
  \<open>dom\<close> or \<open>7\<close> Dominant, and every other tag Other. The tag \<open>M\<close> is left out.
\<close>

theorem getChordQuality_rules:
  assumes "ty \<noteq> ''M''"
  shows "getChordQuality ty =
     (let t = toLowerCase ty in
      if sublist ''maj'' t \<or> ty = '''' then Major
      else if sublist ''min'' t \<or> ty = ''m'' then Minor
      else if sublist ''dim'' t then Diminished
      else if sublist ''aug'' t then Augmented
      else if sublist ''dom'' t \<or> sublist ''7'' t then Dominant
      else Other)"
  using assms
  by (simp add: getChordQuality_def Let_def str_includes_sublist toLowerCase_Nil toLowerCase_m toLowerCase_ne_M)

theorem getChordQuality_rules_witness:
  "''Major'' \<noteq> ''M'' \<and> getChordQuality ''Major'' = Major \<and> getChordQuality ''m'' = Minor \<and> getChordQuality ''dim7'' = Diminished
   \<and> getChordQuality ''7sus4'' = Dominant \<and> getChordQuality ''Unknown'' = Other"
  using getChordQuality_rules [of "''Major''"] getChordQuality_rules [of "''m''"]
        getChordQuality_rules [of "''dim7''"] getChordQuality_rules [of "''7sus4''"]  getChordQuality_rules [of "''Unknown''"]
  by (simp add: toLowerCase_def lowerChar_def str_includes_sublist [symmetric])

text \<open>
  C5 as stated fails: the empty tag and the tag \<open>Major\<close> contain none of the substrings, so
  the stated rules give Other, and the code gives Major.
\<close>

theorem getChordQuality_counterexample:
  "getChordQuality '''' = Major \<and> chordQuality_spec '''' = Other \<and>
   getChordQuality ''Major'' = Major \<and> chordQuality_spec ''Major'' = Other"
  by (simp add: getChordQuality_def chordQuality_spec_def toLowerCase_def lowerChar_def str_includes_sublist [symmetric])

section \<open>Chord detection\<close>

lemma smod12_mod: "((m::int) smod 12) mod 12 = m mod 12"
  by (simp add: signed_modulo_int_eq_modulo_int)

lemma smod12_idem: "((m::int) smod 12) smod 12 = m smod 12"
proof (cases "0 \<le> m")
  case True
  then have "m smod 12 = m mod 12" by (simp add: smod_mod_positive)
  moreover have "(m mod 12) smod 12 = (m mod 12) mod 12" by (simp add: smod_mod_positive)
  ultimately show ?thesis by simp
next
  case False
  have m: "m smod 12 = - ((- m) mod 12)"
    using smod_mod_positive [of "- m" 12] False by simp
  have "((- m) mod 12) smod 12 = ((- m) mod 12) mod 12" by (simp add: smod_mod_positive)
  then show ?thesis using m by simp
qed

lemma detectChord_short: "length notes < 2 \<Longrightarrow> detectChord T notes = None"
  by (simp add: detectChord_def)

lemma detectChord_Some_matched:
  assumes "detectChord T notes = Some c"
  shows "2 \<le> length (noteNames T notes) \<and>
         (Chord_detect T (noteNames T notes) \<noteq> [] \<or> Chord_detect T (pitchClassNotes T notes) \<noteq> [])"
  using assms by (auto simp: detectChord_def Let_def split: if_splits list.splits)

lemma pitchClassNotes_card:
  "card (set (map (Note_pitchClass T) (pitchClassNotes T notes))) \<le> card (midiToPitchClass ` set notes)"
proof -
  have "card (set (map (Note_pitchClass T) (pitchClassNotes T notes))) \<le> length (pitchClassNotes T notes)"
    by (metis card_length length_map)
  also have "\<dots> = length (remdups (map midiToPitchClass notes))"
    by (simp add: pitchClassNotes_def getPitchClasses_def)
  also have "\<dots> = card (midiToPitchClass ` set notes)"
    by (simp add: length_remdups_card_conv)
  finally show ?thesis .
qed

lemma noteNames_card:
  assumes "pitchClass_by_mod12 T"
  shows "card (set (map (Note_pitchClass T) (noteNames T notes)))
           \<le> card (midiToPitchClass ` set notes)"
proof -
  define f where "f = (\<lambda>m. Note_pitchClass T (Note_fromMidi T m))"
  have f: "f m = f (midiToPitchClass m)" for m
  proof -
    have "m smod 12 = (m smod 12) smod 12" by (simp only: smod12_idem)
    then show ?thesis
      using assms unfolding pitchClass_by_mod12_def f_def midiToPitchClass_def by blast
  qed
  have sub: "set (map (Note_pitchClass T) (noteNames T notes)) \<subseteq> f ` set notes"
    unfolding f_def noteNames_def midiToNote_def orElse_def by auto
  have "f ` set notes = (\<lambda>m. f (midiToPitchClass m)) ` set notes"
    by (rule image_cong [OF refl]) (rule f)
  then have img: "f ` set notes = f ` (midiToPitchClass ` set notes)"
    by (simp only: image_image)
  have "card (set (map (Note_pitchClass T) (noteNames T notes))) \<le> card (f ` set notes)"
    using sub by (intro card_mono) auto
  also have "\<dots> = card (f ` (midiToPitchClass ` set notes))"
    using img by simp
  also have "\<dots> \<le> card (midiToPitchClass ` set notes)"
    by (intro card_image_le) auto
  finally show ?thesis .
qed

lemma detectChord_one_pitch_class:
  assumes "matcher_needs_two T" "pitchClass_by_mod12 T" "card (midiToPitchClass ` set notes) < 2"
  shows "detectChord T notes = None"
proof -
  have "card (set (map (Note_pitchClass T) (noteNames T notes))) < 2"
    using noteNames_card [OF assms(2)] assms(3) by (rule le_less_trans)
  then have "Chord_detect T (noteNames T notes) = []"
    using assms(1) unfolding matcher_needs_two_def by blast
  moreover have "card (set (map (Note_pitchClass T) (pitchClassNotes T notes))) < 2"
    using pitchClassNotes_card assms(3) by (rule le_less_trans)
  then have "Chord_detect T (pitchClassNotes T notes) = []"
    using assms(1) unfolding matcher_needs_two_def by blast
  ultimately show ?thesis by (simp add: detectChord_def)
qed

lemma chordTypes_two: "ct \<in> set chordTypes \<Longrightarrow> 2 \<le> length (ct_intervals ct)"
  by (auto simp: chordTypes_def)

lemma modeAt_length: "length (modeAt chromas i) \<le> card (set chromas)"
proof -
  have "length (modeAt chromas i) = card ((\<lambda>c. (c - i) mod 12) ` set chromas)"
    by (simp add: modeAt_def length_remdups_card_conv)
  also have "\<dots> \<le> card (set chromas)"
    by (rule card_image_le) simp
  finally show ?thesis .
qed

lemma concat_map_Nil: "(\<And>x. x \<in> set xs \<Longrightarrow> f x = []) \<Longrightarrow> concat (map f xs) = []"
  by (induction xs) auto

lemma matchAt_few:
  assumes "card (set ns) < 2" "ct \<in> set chordTypes"
  shows "matchAt ns tonic i ct = []"
proof -
  have "card (set (map chromaOf ns)) \<le> card (set ns)"
    by (simp add: card_image_le)
  then have c: "card (set (map chromaOf ns)) < 2"
    using assms(1) by simp
  have "ct_intervals ct \<noteq> modeAt (map chromaOf ns) i"
  proof
    assume "ct_intervals ct = modeAt (map chromaOf ns) i"
    then have "length (ct_intervals ct) \<le> card (set (map chromaOf ns))"
      using modeAt_length [of "map chromaOf ns" i] by simp
    then show False
      using c chordTypes_two [OF assms(2)] by simp
  qed
  then show ?thesis by (simp add: matchAt_def)
qed

lemma findMatches_few:
  assumes "card (set ns) < 2"
  shows "findMatches ns = []"
proof (cases ns)
  case Nil
  then show ?thesis by (simp add: findMatches_def)
next
  case (Cons tonic rest)
  have inner: "concat (map (matchAt ns tonic i) chordTypes) = []" for i
    by (rule concat_map_Nil) (rule matchAt_few [OF assms])
  have "concat (map (\<lambda>i. concat (map (matchAt ns tonic i) chordTypes))
            [0, 1, 2, 3, 4, 5, 6, 7, 8, 9, 10, 11]) = []"
    by (rule concat_map_Nil) (rule inner)
  then show ?thesis
    by (simp only: findMatches_def Cons list.case)
qed

lemma demo_detect_few:
  assumes "card (set (map demo_pitchClass names)) < 2"
  shows "demo_detect names = []"
proof -
  have "set (filter (\<lambda>x. x \<noteq> []) (map demo_pitchClass names)) \<subseteq> set (map demo_pitchClass names)"
    by auto
  then have "card (set (filter (\<lambda>x. x \<noteq> []) (map demo_pitchClass names)))
      \<le> card (set (map demo_pitchClass names))"
    by (intro card_mono) auto
  then have "card (set (filter (\<lambda>x. x \<noteq> []) (map demo_pitchClass names))) < 2"
    using assms by simp
  then have "findMatches (filter (\<lambda>x. x \<noteq> []) (map demo_pitchClass names)) = []"
    by (rule findMatches_few)
  then show ?thesis
    by (simp add: demo_detect_def)
qed

lemma demo_matcher_needs_two: "matcher_needs_two demoTonal"
proof -
  have sel: "Note_pitchClass demoTonal = demo_pitchClass" "Chord_detect demoTonal = demo_detect"
    by (simp_all add: demoTonal_def)
  show ?thesis
    unfolding matcher_needs_two_def sel using demo_detect_few by blast
qed

lemma showNat_digits: "list_all (\<lambda>x. x \<in> set ''0123456789'') (showNat n) \<and> showNat n \<noteq> []"
proof (induction n rule: showNat.induct)
  case (1 n)
  have d: "digitChar k \<in> set ''0123456789''" if "k < 10" for k
  proof -
    from that have "k = 0 \<or> k = 1 \<or> k = 2 \<or> k = 3 \<or> k = 4 \<or> k = 5 \<or> k = 6 \<or> k = 7 \<or> k = 8 \<or> k = 9"
      by arith
    then show ?thesis by (auto simp: digitChar_def)
  qed
  show ?case
  proof (cases "n < 10")
    case True
    then show ?thesis using d [of n] by (simp add: showNat.simps [of n])
  next
    case False
    have "n mod 10 < 10" by simp
    then have "digitChar (n mod 10) \<in> set ''0123456789''" by (rule d)
    with False 1 show ?thesis by (simp add: showNat.simps [of n])
  qed
qed

lemma showInt_octave: "isOctave (showInt i) \<and> (\<exists>c cs. showInt i = c # cs \<and> c \<noteq> CHR ''b'')"
proof (cases "i < 0")
  case True
  then show ?thesis
    using showNat_digits [of "nat (- i)"] by (simp add: showInt_def isOctave_def)
next
  case False
  obtain c cs where s: "showNat (nat i) = c # cs"
    using showNat_digits [of "nat i"] by (cases "showNat (nat i)") auto
  have a: "list_all (\<lambda>x. x \<in> set ''0123456789'') (c # cs)"
    using showNat_digits [of "nat i"] s by simp
  then have "c \<noteq> CHR ''-''" "c \<noteq> CHR ''b''" by auto
  then show ?thesis
    using False s a by (simp add: showInt_def isOctave_def)
qed

lemma pcPrefix_flatName:
  assumes "k < 12" "c \<noteq> CHR ''b''"
  shows "pcPrefix (flatNames ! k @ c # cs) = flatNames ! k \<and> flatNames ! k \<noteq> []"
proof -
  from assms(1) have "k = 0 \<or> k = 1 \<or> k = 2 \<or> k = 3 \<or> k = 4 \<or> k = 5 \<or> k = 6 \<or> k = 7 \<or> k = 8 \<or> k = 9 \<or> k = 10 \<or> k = 11"
    by arith
  then show ?thesis
    using assms(2) by (auto simp: flatNames_def pcPrefix_def)
qed

lemma demo_pitchClass_fromMidi:
  "demo_pitchClass (demo_fromMidi m) = (if m smod 12 < 0 then [] else flatNames ! nat (m smod 12))"
proof (cases "m smod 12 < 0")
  case True
  then show ?thesis by (simp add: demo_fromMidi_def demo_pitchClass_def pcPrefix_def)
next
  case False
  obtain c cs where s: "showInt (m div 12 - 1) = c # cs" "c \<noteq> CHR ''b''"
    using showInt_octave by blast
  have o: "isOctave (c # cs)"
    using showInt_octave [of "m div 12 - 1"] s by simp
  have "m smod 12 < 12"
    using smod_int_range [of 12 m] by simp
  then have k: "nat (m smod 12) < 12" using False by simp
  have p: "pcPrefix (flatNames ! nat (m smod 12) @ c # cs) = flatNames ! nat (m smod 12)"
    "flatNames ! nat (m smod 12) \<noteq> []"
    using pcPrefix_flatName [OF k s(2)] by simp_all
  show ?thesis
    using False s o p by (simp add: demo_fromMidi_def demo_pitchClass_def Let_def)
qed

lemma demo_pitchClass_by_mod12: "pitchClass_by_mod12 demoTonal"
proof -
  have sel: "Note_pitchClass demoTonal = demo_pitchClass"
    "Note_fromMidi demoTonal = demo_fromMidi"
    by (simp_all add: demoTonal_def)
  show ?thesis
    unfolding pitchClass_by_mod12_def
  proof (intro allI impI)
    fix m n :: int
    assume "m smod 12 = n smod 12"
    then have "demo_pitchClass (demo_fromMidi m) = demo_pitchClass (demo_fromMidi n)"
      by (simp only: demo_pitchClass_fromMidi)
    then show "Note_pitchClass demoTonal (Note_fromMidi demoTonal m) =
        Note_pitchClass demoTonal (Note_fromMidi demoTonal n)"
      by (simp only: sel)
  qed
qed

lemma noteNames_length: "length (noteNames T ns) \<le> length ns"
  by (simp add: noteNames_def order_trans [OF length_filter_le])

lemma bassNote_Min:
  assumes "ns \<noteq> []"
  shows "bassNote T ns = Note_fromMidi T (Min (set ns))"
proof -
  have "sort ns \<noteq> []" using assms by (metis length_0_conv length_sort)
  moreover have "sorted (sort ns)" by simp
  ultimately have "hd (sort ns) = Min (set (sort ns))"
    by (cases "sort ns") (auto simp: Min_insert2 intro!: Min_eqI [symmetric])
  then show ?thesis
    by (simp add: bassNote_def midiToNote_def orElse_def)
qed

lemma getPitchClasses_sorted_set:
  "getPitchClasses ns = sorted_list_of_set ((\<lambda>m. m smod 12) ` set ns)"
  by (simp add: getPitchClasses_def midiToPitchClass_def sorted_list_of_set_sort_remdups [symmetric])

text \<open>
  C3. A note list with fewer than two notes, and so a set of fewer than two distinct
  notes, gives no chord, whatever the chord library does. With a library that matches no
  template on fewer than two distinct pitch classes, a note array with
  fewer than two distinct notes give no chord, and a chord is produced only when at least
  two distinct pitch classes are active and one of the two attempts matched a template.
\<close>

theorem detectChord_needs_two:
  "(length notes < 2 \<longrightarrow> detectChord T notes = None) \<and>
   (distinct notes \<and> card (set notes) < 2 \<longrightarrow> detectChord T notes = None) \<and>
   (matcher_needs_two T \<and> pitchClass_by_mod12 T \<longrightarrow>
      (card (set notes) < 2 \<longrightarrow> detectChord T notes = None) \<and>
      (detectChord T notes \<noteq> None \<longrightarrow>
         2 \<le> card (midiToPitchClass ` set notes) \<and>
         (Chord_detect T (noteNames T notes) \<noteq> [] \<or>
          Chord_detect T (pitchClassNotes T notes) \<noteq> [])))"
proof (intro conjI impI)
  assume "length notes < 2"
  then show "detectChord T notes = None" by (rule detectChord_short)
next
  assume "distinct notes \<and> card (set notes) < 2"
  then have "length notes < 2" using distinct_card [of "notes"] by auto
  then show "detectChord T notes = None" by (rule detectChord_short)
next
  assume H: "matcher_needs_two T \<and> pitchClass_by_mod12 T" and "card (set notes) < 2"
  have "card (midiToPitchClass ` set notes) \<le> card (set notes)"
    by (intro card_image_le) simp
  with H \<open>card (set notes) < 2\<close> show "detectChord T notes = None"
    by (intro detectChord_one_pitch_class) auto
next
  assume H: "matcher_needs_two T \<and> pitchClass_by_mod12 T" and S: "detectChord T notes \<noteq> None"
  show "2 \<le> card (midiToPitchClass ` set notes)"
  proof (rule ccontr)
    assume "\<not> 2 \<le> card (midiToPitchClass ` set notes)"
    with H have "detectChord T notes = None"
      by (intro detectChord_one_pitch_class) auto
    with S show False by simp
  qed
next
  assume S: "detectChord T notes \<noteq> None"
  then obtain c where "detectChord T notes = Some c" by auto
  then show "Chord_detect T (noteNames T notes) \<noteq> [] \<or> Chord_detect T (pitchClassNotes T notes) \<noteq> []"
    using detectChord_Some_matched by blast
qed

theorem detectChord_needs_two_witness:
  "length ([60] :: int list) < 2 \<and> detectChord demoTonal [60] = None \<and>
   distinct ([] :: int list) \<and> card (set ([] :: int list)) < 2 \<and> detectChord demoTonal [] = None \<and>
   matcher_needs_two demoTonal \<and> pitchClass_by_mod12 demoTonal \<and>
   card (set [60, 60 :: int]) < 2 \<and> detectChord demoTonal [60, 60] = None \<and>
   detectChord demoTonal [60, 64, 67] \<noteq> None \<and>
   2 \<le> card (midiToPitchClass ` set [60, 64, 67]) \<and>
   Chord_detect demoTonal (noteNames demoTonal [60, 64, 67]) \<noteq> []"
proof -
  have m: "matcher_needs_two demoTonal \<and> pitchClass_by_mod12 demoTonal"
    by (simp add: demo_matcher_needs_two demo_pitchClass_by_mod12)
  have s: "detectChord demoTonal [60, 64, 67] \<noteq> None"
    by code_simp
  have d: "Chord_detect demoTonal (noteNames demoTonal [60, 64, 67]) \<noteq> []"
    by code_simp
  show ?thesis
    using m s d detectChord_needs_two [of "[60]" demoTonal]
      detectChord_needs_two [of "[]" demoTonal]
      detectChord_needs_two [of "[60, 60]" demoTonal]
      detectChord_needs_two [of "[60, 64, 67]" demoTonal]
    by simp
qed

text \<open>
  C4 (as amended). When at least two notes have a name: if the octave-aware names yield
  candidates, the first is taken; it is returned with its type and its root (the library's
  tonic, or the name of the lowest note when there is none) unless the library's entry for
  it is empty, and then the result is none, with no second attempt. If the octave-aware
  names yield nothing, the names of the distinct pitch classes, in ascending order, are
  tried and their first candidate is returned with its tonic and type, or none when its
  entry is empty. If both attempts yield nothing the result is none.
\<close>

theorem detectChord_attempts:
  assumes "2 \<le> length (filter (\<lambda>s. s \<noteq> []) (map (Note_fromMidi T) notes))"
  shows
    "(let names = filter (\<lambda>s. s \<noteq> []) (map (Note_fromMidi T) notes);
          bass = Note_fromMidi T (Min (set notes));
          pcNames = map (\<lambda>pc. Note_pitchClass T
                       (if Note_fromMidi T pc = [] then ''C'' else Note_fromMidi T pc))
                      (sorted_list_of_set ((\<lambda>m. m smod 12) ` set notes));
          shown = map (\<lambda>n. if Note_pitchClass T n = [] then n else Note_pitchClass T n) names;
          qual = (\<lambda>info. getChordQuality
                    (if ci_quality info = [] then ci_type info else ci_quality info))
      in
        (\<forall>c cs. Chord_detect T names = c # cs \<longrightarrow>
           detectChord T notes =
             (if ci_empty (Chord_get T c) then None
              else Some \<lparr>dc_name = c, dc_symbol = c,
                     dc_root = (case ci_tonic (Chord_get T c) of
                                  Some t \<Rightarrow> if t = [] then bass else t
                                | None \<Rightarrow> bass),
                     dc_type = ci_type (Chord_get T c),
                     dc_notes = shown,
                     dc_quality = qual (Chord_get T c)\<rparr>)) \<and>
        (Chord_detect T names = [] \<longrightarrow>
           (\<forall>c cs. Chord_detect T pcNames = c # cs \<longrightarrow>
              detectChord T notes =
                (if ci_empty (Chord_get T c) then None
                 else Some \<lparr>dc_name = c, dc_symbol = c,
                        dc_root = (case ci_tonic (Chord_get T c) of Some t \<Rightarrow> t | None \<Rightarrow> []),
                        dc_type = ci_type (Chord_get T c),
                        dc_notes = shown,
                        dc_quality = qual (Chord_get T c)\<rparr>)) \<and>
           (Chord_detect T pcNames = [] \<longrightarrow> detectChord T notes = None)))"
proof -
  have mn: "midiToNote T = Note_fromMidi T"
    by (rule ext) (simp add: midiToNote_def orElse_def)
  have nn: "noteNames T notes = filter (\<lambda>s. s \<noteq> []) (map (Note_fromMidi T) notes)"
    by (simp only: noteNames_def mn)
  have a: "\<not> length (noteNames T notes) < 2"
    using assms unfolding nn by simp
  then have n: "\<not> length notes < 2"
    using noteNames_length [of T "notes"] by simp
  then have "notes \<noteq> []" by auto
  then have b: "bassNote T notes = Note_fromMidi T (Min (set notes))"
    by (rule bassNote_Min)
  have pc: "pitchClassNotes T notes =
      map (\<lambda>pc. Note_pitchClass T (if Note_fromMidi T pc = [] then ''C'' else Note_fromMidi T pc))
        (sorted_list_of_set ((\<lambda>m. m smod 12) ` set notes))"
    by (simp add: pitchClassNotes_def getPitchClasses_sorted_set midiToNote_def orElse_def)
  have d: "detectChord T notes =
      (case Chord_detect T (noteNames T notes) of
           chordName # _ \<Rightarrow>
             (let chordInfo = Chord_get T chordName in
              if ci_empty chordInfo then None
              else Some \<lparr>dc_name = chordName, dc_symbol = chordName,
                     dc_root = (case ci_tonic chordInfo of
                                  Some t \<Rightarrow> orElse t (bassNote T notes)
                                | None \<Rightarrow> bassNote T notes),
                     dc_type = ci_type chordInfo,
                     dc_notes = pitchClassNames T (noteNames T notes),
                     dc_quality = chordQualityOf chordInfo\<rparr>)
         | [] \<Rightarrow>
             (case Chord_detect T (pitchClassNotes T notes) of
                chordName # _ \<Rightarrow>
                  (let chordInfo = Chord_get T chordName in
                   if \<not> ci_empty chordInfo then
                     Some \<lparr>dc_name = chordName, dc_symbol = chordName,
                       dc_root = (case ci_tonic chordInfo of Some t \<Rightarrow> t | None \<Rightarrow> ''''),
                       dc_type = ci_type chordInfo,
                       dc_notes = pitchClassNames T (noteNames T notes),
                       dc_quality = chordQualityOf chordInfo\<rparr>
                   else None)
              | [] \<Rightarrow> None))"
    using a n by (simp add: detectChord_def)
  have first: "detectChord T notes =
      (if ci_empty (Chord_get T c) then None
       else Some \<lparr>dc_name = c, dc_symbol = c,
              dc_root = (case ci_tonic (Chord_get T c) of
                           Some t \<Rightarrow> if t = [] then Note_fromMidi T (Min (set notes)) else t
                         | None \<Rightarrow> Note_fromMidi T (Min (set notes))),
              dc_type = ci_type (Chord_get T c),
              dc_notes = map (\<lambda>n. if Note_pitchClass T n = [] then n else Note_pitchClass T n)
                (filter (\<lambda>s. s \<noteq> []) (map (Note_fromMidi T) notes)),
              dc_quality = getChordQuality
                (if ci_quality (Chord_get T c) = [] then ci_type (Chord_get T c)
                 else ci_quality (Chord_get T c))\<rparr>)"
    if "Chord_detect T (filter (\<lambda>s. s \<noteq> []) (map (Note_fromMidi T) notes)) = c # cs" for c cs
    unfolding d b nn that
    by (simp add: Let_def pitchClassNames_def chordQualityOf_def orElse_def split: option.splits)
  have second: "detectChord T notes =
      (if ci_empty (Chord_get T c) then None
       else Some \<lparr>dc_name = c, dc_symbol = c,
              dc_root = (case ci_tonic (Chord_get T c) of Some t \<Rightarrow> t | None \<Rightarrow> []),
              dc_type = ci_type (Chord_get T c),
              dc_notes = map (\<lambda>n. if Note_pitchClass T n = [] then n else Note_pitchClass T n)
                (filter (\<lambda>s. s \<noteq> []) (map (Note_fromMidi T) notes)),
              dc_quality = getChordQuality
                (if ci_quality (Chord_get T c) = [] then ci_type (Chord_get T c)
                 else ci_quality (Chord_get T c))\<rparr>)"
    if "Chord_detect T (filter (\<lambda>s. s \<noteq> []) (map (Note_fromMidi T) notes)) = []"
      "Chord_detect T (map (\<lambda>pc. Note_pitchClass T
          (if Note_fromMidi T pc = [] then ''C'' else Note_fromMidi T pc))
          (sorted_list_of_set ((\<lambda>m. m smod 12) ` set notes))) = c # cs" for c cs
    unfolding d b pc nn that
    by (simp add: Let_def pitchClassNames_def chordQualityOf_def orElse_def split: option.splits)
  have third: "detectChord T notes = None"
    if "Chord_detect T (filter (\<lambda>s. s \<noteq> []) (map (Note_fromMidi T) notes)) = []"
      "Chord_detect T (map (\<lambda>pc. Note_pitchClass T
          (if Note_fromMidi T pc = [] then ''C'' else Note_fromMidi T pc))
          (sorted_list_of_set ((\<lambda>m. m smod 12) ` set notes))) = []"
    unfolding d b pc nn that by simp
  show ?thesis
    unfolding Let_def
    using first second third by blast
qed

theorem detectChord_attempts_witness:
  "2 \<le> length (filter (\<lambda>s. s \<noteq> []) (map (Note_fromMidi demoTonal) [60, 64, 67])) \<and>
   Chord_detect demoTonal (filter (\<lambda>s. s \<noteq> []) (map (Note_fromMidi demoTonal) [60, 64, 67]))
     = [''CM'', ''Em#5/C''] \<and>
   detectChord demoTonal [60, 64, 67] =
     Some \<lparr>dc_name = ''CM'', dc_symbol = ''CM'', dc_root = ''C'', dc_type = ''major'',
       dc_notes = [''C'', ''E'', ''G''], dc_quality = Major\<rparr> \<and>
   2 \<le> length (filter (\<lambda>s. s \<noteq> []) (map (Note_fromMidi demoTonal) [60, 61])) \<and>
   Chord_detect demoTonal (filter (\<lambda>s. s \<noteq> []) (map (Note_fromMidi demoTonal) [60, 61])) = [] \<and>
   detectChord demoTonal [60, 61] = None"
proof -
  have a: "2 \<le> length (filter (\<lambda>s. s \<noteq> []) (map (Note_fromMidi demoTonal) [60, 64, 67]))"
    by code_simp
  have b: "2 \<le> length (filter (\<lambda>s. s \<noteq> []) (map (Note_fromMidi demoTonal) [60, 61]))"
    by code_simp
  have d1: "Chord_detect demoTonal (filter (\<lambda>s. s \<noteq> []) (map (Note_fromMidi demoTonal) [60, 64, 67]))
      = [''CM'', ''Em#5/C'']"
    by code_simp
  have d2: "Chord_detect demoTonal (filter (\<lambda>s. s \<noteq> []) (map (Note_fromMidi demoTonal) [60, 61])) = []"
    by code_simp
  have d3: "Chord_detect demoTonal
      (map (\<lambda>pc. Note_pitchClass demoTonal
              (if Note_fromMidi demoTonal pc = [] then ''C'' else Note_fromMidi demoTonal pc))
         (sorted_list_of_set ((\<lambda>m. m smod 12) ` set [60, 61]))) = []"
    by code_simp
  have g: "Chord_get demoTonal ''CM'' =
      \<lparr>ci_empty = False, ci_tonic = Some ''C'', ci_type = ''major'', ci_quality = ''Major''\<rparr>"
    by code_simp
  have q: "getChordQuality ''Major'' = Major"
    by code_simp
  have p: "map (\<lambda>n. if Note_pitchClass demoTonal n = [] then n else Note_pitchClass demoTonal n)
      (filter (\<lambda>s. s \<noteq> []) (map (Note_fromMidi demoTonal) [60, 64, 67])) = [''C'', ''E'', ''G'']"
    by code_simp
  note t1 = detectChord_attempts [OF a, unfolded Let_def, unfolded d1 g p q]
  note t2 = detectChord_attempts [OF b, unfolded Let_def, unfolded d2 d3]
  have r1: "detectChord demoTonal [60, 64, 67] =
     Some \<lparr>dc_name = ''CM'', dc_symbol = ''CM'', dc_root = ''C'', dc_type = ''major'',
       dc_notes = [''C'', ''E'', ''G''], dc_quality = Major\<rparr>"
    using t1 by (simp add: g q)
  have r2: "detectChord demoTonal [60, 61] = None"
    using t2 by simp
  show ?thesis
    by (intro conjI) (rule a d1 r1 b d2 r2)+
qed

text \<open>
  C4 as stated fails: for C3, Db3, E3 and Ab3 the octave-aware attempt yields the candidate
  \<open>Dbm/ma7/C\<close>, the library cannot resolve that symbol, and the result is none.
\<close>

theorem detectChord_attempts_counterexample:
  "2 \<le> length (filter (\<lambda>s. s \<noteq> []) (map (Note_fromMidi demoTonal) [48, 49, 52, 56])) \<and>
   Chord_detect demoTonal (filter (\<lambda>s. s \<noteq> []) (map (Note_fromMidi demoTonal) [48, 49, 52, 56]))
     = [''Dbm/ma7/C''] \<and>
   ci_empty (Chord_get demoTonal ''Dbm/ma7/C'') \<and>
   detectChord demoTonal [48, 49, 52, 56] = None"
  by code_simp

section \<open>Switching instruments\<close>

lemma pending_after_first:
  "B \<in> set (remove1 A (p @ [A, B]))" "A \<in> set (remove1 B (p @ [A, B]))"
  by (auto simp: remove1_append)

lemma setInstrument_call_sampled:
  assumes "audioContextRef st" "inst_type (getInstrument i) = Sampled"
  shows "pendingLoads (setInstrument_call st i) = pendingLoads st @ [i]"
    and "instrumentRef (setInstrument_call st i) = instrumentRef st"
    and "audioContextRef (setInstrument_call st i)"
    and "isLoading (setInstrument_call st i)"
    and "nextVoice (setInstrument_call st i) = nextVoice st"
  using assms by (simp_all add: setInstrument_call_def Let_def split: option.splits)

lemma setInstrument_settled_Fulfilled:
  assumes "i \<in> set (pendingLoads st)"
  shows "\<exists>st'. setInstrument_settled st i Fulfilled = Some st' \<and>
           instrumentRef st' = Some (loadSampledInstrument i) \<and>
           currentInstrumentId st' = i \<and>
           pendingLoads st' = remove1 i (pendingLoads st)"
  using assms by (simp add: setInstrument_settled_def Let_def)

lemma two_loads_in_order:
  assumes "audioContextRef st" "inst_type (getInstrument A) = Sampled"
    "inst_type (getInstrument B) = Sampled"
    "(X = A \<and> Y = B) \<or> (X = B \<and> Y = A)"
  shows "\<exists>st'. run st [SetInstrument A, SetInstrument B, LoadSettled X Fulfilled,
             LoadSettled Y Fulfilled] = Some st' \<and>
           instrumentRef st' = Some (loadSampledInstrument Y) \<and> currentInstrumentId st' = Y"
proof -
  let ?s1 = "setInstrument_call st A"
  let ?s2 = "setInstrument_call ?s1 B"
  have p2: "pendingLoads ?s2 = pendingLoads st @ [A, B]"
    using assms(1-3) by (simp add: setInstrument_call_sampled)
  have "X \<in> set (pendingLoads ?s2)"
    using assms(4) p2 by auto
  then obtain s3 where s3: "setInstrument_settled ?s2 X Fulfilled = Some s3"
    "pendingLoads s3 = remove1 X (pendingLoads ?s2)"
    using setInstrument_settled_Fulfilled by blast
  have "Y \<in> set (pendingLoads s3)"
    using assms(4) p2 s3(2) pending_after_first by auto
  then obtain s4 where s4: "setInstrument_settled s3 Y Fulfilled = Some s4"
    "instrumentRef s4 = Some (loadSampledInstrument Y)" "currentInstrumentId s4 = Y"
    using setInstrument_settled_Fulfilled by blast
  show ?thesis
    using s3(1) s4 by simp
qed

lemma first_load_settled:
  assumes "audioContextRef st" "inst_type (getInstrument A) = Sampled"
    "inst_type (getInstrument B) = Sampled" "X = A \<or> X = B"
  shows "\<exists>st'. run st [SetInstrument A, SetInstrument B, LoadSettled X Fulfilled] = Some st' \<and>
           instrumentRef st' = Some (loadSampledInstrument X) \<and> currentInstrumentId st' = X"
proof -
  let ?s1 = "setInstrument_call st A"
  let ?s2 = "setInstrument_call ?s1 B"
  have p2: "pendingLoads ?s2 = pendingLoads st @ [A, B]"
    using assms(1-3) by (simp add: setInstrument_call_sampled)
  have "X \<in> set (pendingLoads ?s2)"
    using assms(4) p2 by auto
  then obtain s3 where "setInstrument_settled ?s2 X Fulfilled = Some s3"
    "instrumentRef s3 = Some (loadSampledInstrument X)" "currentInstrumentId s3 = X"
    using setInstrument_settled_Fulfilled by blast
  then show ?thesis by simp
qed

text \<open>
  C1 (as amended). After \<open>setInstrument(A)\<close> and \<open>setInstrument(B)\<close> for two sampled
  instruments, both issued before either load settles, the installed backend and the
  reported id are those of the load that settles last: B's when A's load settles first,
  A's when B's load settles first. No result is discarded: the load that settles first is
  installed and reported when it settles, whichever of the two it is.
\<close>

theorem setInstrument_last_settled_wins:
  assumes "audioContextRef st" "inst_type (getInstrument A) = Sampled"
    "inst_type (getInstrument B) = Sampled"
  shows
    "map_option instrumentRef
       (run st [SetInstrument A, SetInstrument B, LoadSettled A Fulfilled, LoadSettled B Fulfilled])
       = Some (Some (loadSampledInstrument B)) \<and>
     map_option currentInstrumentId
       (run st [SetInstrument A, SetInstrument B, LoadSettled A Fulfilled, LoadSettled B Fulfilled])
       = Some B \<and>
     map_option instrumentRef
       (run st [SetInstrument A, SetInstrument B, LoadSettled B Fulfilled, LoadSettled A Fulfilled])
       = Some (Some (loadSampledInstrument A)) \<and>
     map_option currentInstrumentId
       (run st [SetInstrument A, SetInstrument B, LoadSettled B Fulfilled, LoadSettled A Fulfilled])
       = Some A \<and>
     map_option instrumentRef (run st [SetInstrument A, SetInstrument B, LoadSettled A Fulfilled])
       = Some (Some (loadSampledInstrument A)) \<and>
     map_option currentInstrumentId (run st [SetInstrument A, SetInstrument B, LoadSettled A Fulfilled])
       = Some A \<and>
     map_option instrumentRef (run st [SetInstrument A, SetInstrument B, LoadSettled B Fulfilled])
       = Some (Some (loadSampledInstrument B)) \<and>
     map_option currentInstrumentId (run st [SetInstrument A, SetInstrument B, LoadSettled B Fulfilled])
       = Some B"
proof -
  obtain s where "run st [SetInstrument A, SetInstrument B, LoadSettled A Fulfilled,
      LoadSettled B Fulfilled] = Some s"
    "instrumentRef s = Some (loadSampledInstrument B)" "currentInstrumentId s = B"
    using two_loads_in_order [OF assms, of A B] by auto
  moreover obtain s' where "run st [SetInstrument A, SetInstrument B, LoadSettled B Fulfilled,
      LoadSettled A Fulfilled] = Some s'"
    "instrumentRef s' = Some (loadSampledInstrument A)" "currentInstrumentId s' = A"
    using two_loads_in_order [OF assms, of B A] by auto
  moreover obtain t where "run st [SetInstrument A, SetInstrument B, LoadSettled A Fulfilled] = Some t"
    "instrumentRef t = Some (loadSampledInstrument A)" "currentInstrumentId t = A"
    using first_load_settled [OF assms, of A] by auto
  moreover obtain t' where "run st [SetInstrument A, SetInstrument B, LoadSettled B Fulfilled] = Some t'"
    "instrumentRef t' = Some (loadSampledInstrument B)" "currentInstrumentId t' = B"
    using first_load_settled [OF assms, of B] by auto
  ultimately show ?thesis by simp
qed

theorem setInstrument_last_settled_wins_witness:
  "audioContextRef (enable initialAudio Fulfilled Running Fulfilled Fulfilled) \<and>
   inst_type (getInstrument ''electric-piano'') = Sampled \<and>
   inst_type (getInstrument ''strings'') = Sampled \<and>
   map_option instrumentRef
     (run (enable initialAudio Fulfilled Running Fulfilled Fulfilled)
        [SetInstrument ''electric-piano'', SetInstrument ''strings'',
         LoadSettled ''electric-piano'' Fulfilled, LoadSettled ''strings'' Fulfilled])
     = Some (Some (Soundfont ''string_ensemble_1'')) \<and>
   map_option instrumentRef
     (run (enable initialAudio Fulfilled Running Fulfilled Fulfilled)
        [SetInstrument ''electric-piano'', SetInstrument ''strings'',
         LoadSettled ''strings'' Fulfilled, LoadSettled ''electric-piano'' Fulfilled])
     = Some (Some (Soundfont ''electric_piano_1'')) \<and>
   map_option instrumentRef
     (run (enable initialAudio Fulfilled Running Fulfilled Fulfilled)
        [SetInstrument ''electric-piano'', SetInstrument ''strings'',
         LoadSettled ''strings'' Fulfilled])
     = Some (Some (Soundfont ''string_ensemble_1'')) \<and>
   map_option instrumentRef
     (run (enable initialAudio Fulfilled Running Fulfilled Fulfilled)
        [SetInstrument ''electric-piano'', SetInstrument ''strings'',
         LoadSettled ''electric-piano'' Fulfilled])
     = Some (Some (Soundfont ''electric_piano_1''))"
proof -
  have a: "audioContextRef (enable initialAudio Fulfilled Running Fulfilled Fulfilled)"
    by (simp add: enable_def enableLoad_def initialAudio_def Let_def)
  have b: "inst_type (getInstrument ''electric-piano'') = Sampled"
    by (simp add: getInstrument_def instruments_def)
  have c: "inst_type (getInstrument ''strings'') = Sampled"
    by (simp add: getInstrument_def instruments_def)
  have d: "loadSampledInstrument ''electric-piano'' = Soundfont ''electric_piano_1''"
    "loadSampledInstrument ''strings'' = Soundfont ''string_ensemble_1''"
    by (simp_all add: loadSampledInstrument_def)
  show ?thesis
    using setInstrument_last_settled_wins [OF a b c] a b c d by simp
qed

text \<open>
  C1 as stated fails: with the electric piano requested first and the strings second, the
  strings' load settling first leaves the electric piano's backend installed.
\<close>

theorem setInstrument_race_counterexample:
  "map_option instrumentRef
     (run (enable initialAudio Fulfilled Running Fulfilled Fulfilled)
        [SetInstrument ''electric-piano'', SetInstrument ''strings'',
         LoadSettled ''strings'' Fulfilled, LoadSettled ''electric-piano'' Fulfilled])
     = Some (Some (Soundfont ''electric_piano_1'')) \<and>
   loadSampledInstrument ''electric-piano'' = Soundfont ''electric_piano_1'' \<and>
   loadSampledInstrument ''strings'' = Soundfont ''string_ensemble_1''"
  by (simp add: audio_defs)

section \<open>The engine after enable\<close>

lemma organReady:
  "enable initialAudio Fulfilled Running Fulfilled (Rejected None) =
     \<lparr>isEnabled = True, isLoading = False, error = None, currentInstrumentId = ''organ'',
      volume = 80, audioContextRef = True, instrumentRef = Some (PolySynth ''organ'' (Db (- 6))),
      activeNotesRef = [], pendingLoads = [], nextVoice = 0, calls = []\<rparr>"
  by (simp add: enable_def enableLoad_def initialAudio_def createSynth_def DEFAULT_VOLUME_def Let_def)

lemma pianoReady:
  "enable initialAudio Fulfilled Running Fulfilled Fulfilled =
     \<lparr>isEnabled = True, isLoading = False, error = None, currentInstrumentId = ''grand-piano'',
      volume = 80, audioContextRef = True, instrumentRef = Some SplendidGrandPiano,
      activeNotesRef = [], pendingLoads = [], nextVoice = 0, calls = []\<rparr>"
  by (simp add: enable_def enableLoad_def initialAudio_def loadSampledInstrument_def
      DEFAULT_INSTRUMENT_ID_def DEFAULT_VOLUME_def Let_def)

lemma catalog_types:
  "inst_type (getInstrument ''grand-piano'') = Sampled"
  "inst_type (getInstrument ''electric-piano'') = Sampled"
  "inst_type (getInstrument ''strings'') = Sampled"
  "inst_type (getInstrument ''organ'') = Synth"
  by (simp_all add: getInstrument_def instruments_def)

lemma getInstrument_unknown:
  assumes "i \<notin> set (map inst_id instruments)"
  shows "getInstrument i = instruments ! 0"
proof -
  have "find (\<lambda>x. inst_id x = i) instruments = None"
    using assms by (auto simp: find_None_iff)
  then show ?thesis by (simp add: getInstrument_def)
qed



lemma setAdd_distinct: "distinct s \<Longrightarrow> distinct (setAdd s n)"
  by (simp add: setAdd_def)

section \<open>Notes while an instrument loads\<close>









section \<open>Unknown instrument ids\<close>

text \<open>
  C10. For an id that is not in the catalog \<open>getInstrument\<close> returns the first entry, the
  grand piano; \<open>setInstrument\<close> with such an id, once its load has succeeded, has installed
  the grand piano sampler and reports the unknown id as the current instrument.
\<close>

theorem setInstrument_unknown_id:
  assumes "i \<notin> set (map inst_id instruments)" "audioContextRef st"
  shows
    "getInstrument i = instruments ! 0 \<and>
     inst_id (getInstrument i) = ''grand-piano'' \<and>
     map_option instrumentRef (run st [SetInstrument i, LoadSettled i Fulfilled])
       = Some (Some SplendidGrandPiano) \<and>
     map_option currentInstrumentId (run st [SetInstrument i, LoadSettled i Fulfilled])
       = Some i \<and>
     i \<noteq> ''grand-piano''"
proof -
  have g: "getInstrument i = instruments ! 0"
    using assms(1) by (rule getInstrument_unknown)
  then have t: "inst_type (getInstrument i) = Sampled" "inst_id (getInstrument i) = ''grand-piano''"
    by (simp_all add: instruments_def)
  have n: "i \<noteq> ''grand-piano''" "i \<noteq> ''electric-piano''" "i \<noteq> ''strings''"
    using assms(1) by (auto simp: instruments_def)
  then have l: "loadSampledInstrument i = SplendidGrandPiano"
    by (simp add: loadSampledInstrument_def)
  have "i \<in> set (pendingLoads (setInstrument_call st i))"
    using assms(2) t(1) by (simp add: setInstrument_call_sampled)
  then obtain st' where "setInstrument_settled (setInstrument_call st i) i Fulfilled = Some st'"
    "instrumentRef st' = Some (loadSampledInstrument i)" "currentInstrumentId st' = i"
    using setInstrument_settled_Fulfilled by blast
  then show ?thesis using g t(2) n(1) l by simp
qed

theorem setInstrument_unknown_id_witness:
  "''harp'' \<notin> set (map inst_id instruments) \<and>
   audioContextRef (enable initialAudio Fulfilled Running Fulfilled (Rejected None)) \<and>
   inst_name (getInstrument ''harp'') = ''Grand Piano'' \<and>
   map_option instrumentRef
     (run (enable initialAudio Fulfilled Running Fulfilled (Rejected None))
        [SetInstrument ''harp'', LoadSettled ''harp'' Fulfilled]) = Some (Some SplendidGrandPiano) \<and>
   map_option currentInstrumentId
     (run (enable initialAudio Fulfilled Running Fulfilled (Rejected None))
        [SetInstrument ''harp'', LoadSettled ''harp'' Fulfilled]) = Some ''harp''"
proof -
  have a: "''harp'' \<notin> set (map inst_id instruments)" by (simp add: instruments_def)
  have b: "audioContextRef (enable initialAudio Fulfilled Running Fulfilled (Rejected None))"
    by (simp add: organReady)
  have c: "inst_name (instruments ! 0) = ''Grand Piano''" by (simp add: instruments_def)
  show ?thesis using setInstrument_unknown_id [OF a b] a b c by simp
qed

section \<open>Fallback of enable\<close>

text \<open>
  C9. When \<open>enable\<close> runs (audio not yet enabled, the audio context started) and the load
  of the default sampled instrument fails, audio ends up enabled with the organ synthesizer
  installed, the current instrument id is \<open>organ\<close>, a synthesizer of the catalog,
  \<open>isLoading\<close> is false and no error is reported.
\<close>

theorem enable_fallback:
  assumes "\<not> isEnabled st" "ctx = Suspended \<longrightarrow> resume = Fulfilled"
  shows
    "isEnabled (enable st Fulfilled ctx resume (Rejected e)) \<and>
     instrumentRef (enable st Fulfilled ctx resume (Rejected e)) = Some (createSynth ''organ'') \<and>
     isPolySynth (createSynth ''organ'') \<and>
     currentInstrumentId (enable st Fulfilled ctx resume (Rejected e)) = ''organ'' \<and>
     inst_type (getInstrument (currentInstrumentId (enable st Fulfilled ctx resume (Rejected e)))) = Synth \<and>
     \<not> isLoading (enable st Fulfilled ctx resume (Rejected e)) \<and>
     error (enable st Fulfilled ctx resume (Rejected e)) = None"
  using assms
  by (cases ctx) (simp_all add: enable_def enableLoad_def createSynth_def catalog_types Let_def)

theorem enable_fallback_witness:
  "\<not> isEnabled initialAudio \<and>
   isEnabled (enable initialAudio Fulfilled Suspended Fulfilled (Rejected (Some ''404''))) \<and>
   instrumentRef (enable initialAudio Fulfilled Suspended Fulfilled (Rejected (Some ''404'')))
     = Some (PolySynth ''organ'' (Db (- 6))) \<and>
   currentInstrumentId (enable initialAudio Fulfilled Suspended Fulfilled (Rejected (Some ''404'')))
     = ''organ''"
proof -
  have a: "\<not> isEnabled initialAudio" by (simp add: initialAudio_def)
  have b: "Suspended = Suspended \<longrightarrow> Fulfilled = Fulfilled" by simp
  show ?thesis
    using enable_fallback [OF a b, of "Some ''404''"] a by (simp add: createSynth_def)
qed

section \<open>Velocity and volume\<close>

text \<open>
  C7. For a velocity \<open>v\<close> from 0 to 127, \<open>playNote\<close> sends a synthesizer the gain
  \<open>max(0.1, v/127)\<close>, which lies between 0.1 and 1, and sends a sampler the rounded
  velocity clamped to 10..127, which for a whole-numbered \<open>v\<close> is \<open>v\<close> clamped.
\<close>

theorem playNote_velocity:
  assumes "0 \<le> v" "v \<le> 127" "instrumentRef st = Some b"
  shows
    "(isPolySynth b \<longrightarrow>
        calls (playNote st n v f) =
          calls st @ [TriggerAttack b (midiToFreq n) (max (1 / 10) (v / 127))] \<and>
        1 / 10 \<le> max (1 / 10) (v / 127) \<and> max (1 / 10) (v / 127) \<le> 1) \<and>
     (\<not> isPolySynth b \<longrightarrow>
        calls (playNote st n v f) =
          calls st @ [Start b n (max 10 (min 127 (round v))) (nextVoice st)] \<and>
        10 \<le> max 10 (min 127 (round v)) \<and> max 10 (min 127 (round v)) \<le> 127 \<and>
        (\<forall>k. v = of_int k \<longrightarrow> max 10 (min 127 (round v)) = max 10 (min 127 k)))"
  using assms by (auto simp: playNote_def Let_def)

theorem playNote_velocity_witness:
  "calls (playNote (enable initialAudio Fulfilled Running Fulfilled (Rejected None)) 60 0 True)
     = [TriggerAttack (PolySynth ''organ'' (Db (- 6))) (midiToFreq 60) (1 / 10)] \<and>
   calls (playNote (enable initialAudio Fulfilled Running Fulfilled (Rejected None)) 60 127 True)
     = [TriggerAttack (PolySynth ''organ'' (Db (- 6))) (midiToFreq 60) 1] \<and>
   calls (playNote (enable initialAudio Fulfilled Running Fulfilled Fulfilled) 60 0 True)
     = [Start SplendidGrandPiano 60 10 0] \<and>
   calls (playNote (enable initialAudio Fulfilled Running Fulfilled Fulfilled) 60 127 True)
     = [Start SplendidGrandPiano 60 127 0]"
proof -
  let ?o = "enable initialAudio Fulfilled Running Fulfilled (Rejected None)"
  let ?p = "enable initialAudio Fulfilled Running Fulfilled Fulfilled"
  have o: "instrumentRef ?o = Some (PolySynth ''organ'' (Db (- 6)))" "calls ?o = []"
    by (simp_all add: organReady)
  have p: "instrumentRef ?p = Some SplendidGrandPiano" "calls ?p = []" "nextVoice ?p = 0"
    by (simp_all add: pianoReady)
  have z: "(0::real) \<le> 0" "(0::real) \<le> 127" "(127::real) \<le> 127" by simp_all
  show ?thesis
    using playNote_velocity [OF z(1) z(2) o(1), of 60 True]
      playNote_velocity [OF z(2) z(3) o(1), of 60 True]
      playNote_velocity [OF z(1) z(2) p(1), of 60 True]
      playNote_velocity [OF z(2) z(3) p(1), of 60 True] o p
    by simp
qed

text \<open>
  C2 at its two ends, on a synthesizer: volume 0 sets \<open>-Infinity\<close>; volume 100 sets -6 dB,
  not 0 dB.
\<close>

theorem setVolume_full_scale:
  "instrumentRef (setVolume (st\<lparr>instrumentRef := Some (PolySynth ty vol)\<rparr>) 100)
     = Some (PolySynth ty (Db (- 6))) \<and>
   instrumentRef (setVolume (st\<lparr>instrumentRef := Some (PolySynth ty vol)\<rparr>) 0)
     = Some (PolySynth ty NegInfinity)"
  by (simp add: setVolume_def Let_def)

section \<open>A repeated note-on\<close>




end
